theory Spec2Isabelle
  imports Complex_Main
begin

section \<open>Binary64 arithmetic\<close>

text \<open>
  The calculator computes on Go's \<^verbatim>\<open>float64\<close>. A value is a signed finite number
  (sign and magnitude, so that the two zeros are distinct), a signed infinity or NaN.
  Every operation computes the exact result and rounds it to the nearest binary64 number,
  ties to even: 53 significant bits, least exponent \<open>-1022\<close> (below it the numbers are
  subnormal, spaced \<open>2 ^ -1074\<close> apart), overflow to infinity from \<open>2 ^ 1024\<close> on.
  The operations are rounded one by one (no fused multiply-add).
\<close>

datatype float64 = Finite bool real | Infinity bool | NaN

function ilog2 :: "int \<Rightarrow> int" where
  "ilog2 n = (if n < 2 then 0 else 1 + ilog2 (n div 2))"
  by pat_completeness auto
termination
  by (relation "measure nat") auto

declare ilog2.simps [simp del]

definition pow2 :: "int \<Rightarrow> real" where
  "pow2 k = (if 0 \<le> k then 2 ^ nat k else 1 / 2 ^ nat (- k))"

text \<open>\<open>flog2 x\<close> is the exponent of the binade of a positive \<open>x\<close>: \<open>2 ^ flog2 x \<le> x < 2 ^ (flog2 x + 1)\<close>.\<close>

definition flog2 :: "real \<Rightarrow> int" where
  "flog2 x = (if 1 \<le> x then ilog2 \<lfloor>x\<rfloor> else - (ilog2 (\<lceil>1 / x\<rceil> - 1) + 1))"

text \<open>Rounding to the nearest integer, ties to even.\<close>

definition rne :: "real \<Rightarrow> int" where
  "rne y = (let n = \<lfloor>y\<rfloor>; f = y - of_int n
     in if f < 1 / 2 then n else if 1 / 2 < f then n + 1
        else if even n then n else n + 1)"

text \<open>\<open>round64 s x\<close> rounds the magnitude \<open>x \<ge> 0\<close> and attaches the sign \<open>s\<close> (\<open>True\<close> is minus).\<close>

definition round64 :: "bool \<Rightarrow> real \<Rightarrow> float64" where
  "round64 s x = (if x = 0 then Finite s 0 else
     (let e = max (flog2 x) (- 1022); u = pow2 (e - 52); r = of_int (rne (x / u)) * u
      in if pow2 1024 \<le> r then Infinity s else Finite s r))"

definition sval :: "bool \<Rightarrow> real \<Rightarrow> real" where
  "sval s m = (if s then - m else m)"

fun fadd :: "float64 \<Rightarrow> float64 \<Rightarrow> float64" where
  "fadd (Finite s1 m1) (Finite s2 m2) =
     (let r = sval s1 m1 + sval s2 m2
      in if r = 0 then Finite (s1 \<and> s2) 0 else round64 (r < 0) \<bar>r\<bar>)"
| "fadd (Finite s1 m1) (Infinity s2) = Infinity s2"
| "fadd (Infinity s1) (Finite s2 m2) = Infinity s1"
| "fadd (Infinity s1) (Infinity s2) = (if s1 = s2 then Infinity s1 else NaN)"
| "fadd NaN y = NaN"
| "fadd x NaN = NaN"

fun fneg :: "float64 \<Rightarrow> float64" where
  "fneg (Finite s m) = Finite (\<not> s) m"
| "fneg (Infinity s) = Infinity (\<not> s)"
| "fneg NaN = NaN"

definition fsub :: "float64 \<Rightarrow> float64 \<Rightarrow> float64" where
  "fsub x y = fadd x (fneg y)"

fun fmul :: "float64 \<Rightarrow> float64 \<Rightarrow> float64" where
  "fmul (Finite s1 m1) (Finite s2 m2) = round64 (s1 \<noteq> s2) (m1 * m2)"
| "fmul (Finite s1 m1) (Infinity s2) = (if m1 = 0 then NaN else Infinity (s1 \<noteq> s2))"
| "fmul (Infinity s1) (Finite s2 m2) = (if m2 = 0 then NaN else Infinity (s1 \<noteq> s2))"
| "fmul (Infinity s1) (Infinity s2) = Infinity (s1 \<noteq> s2)"
| "fmul NaN y = NaN"
| "fmul x NaN = NaN"

fun fdiv :: "float64 \<Rightarrow> float64 \<Rightarrow> float64" where
  "fdiv (Finite s1 m1) (Finite s2 m2) =
     (if m2 = 0 then (if m1 = 0 then NaN else Infinity (s1 \<noteq> s2))
      else round64 (s1 \<noteq> s2) (m1 / m2))"
| "fdiv (Finite s1 m1) (Infinity s2) = Finite (s1 \<noteq> s2) 0"
| "fdiv (Infinity s1) (Finite s2 m2) = Infinity (s1 \<noteq> s2)"
| "fdiv (Infinity s1) (Infinity s2) = NaN"
| "fdiv NaN y = NaN"
| "fdiv x NaN = NaN"

text \<open>The constants of the source: \<^verbatim>\<open>float64(0)\<close>, \<^verbatim>\<open>float64(1)\<close>, \<^verbatim>\<open>10\<close>, \<^verbatim>\<open>0.1\<close>, \<^verbatim>\<open>-1\<close>.\<close>

definition f_zero :: float64 where "f_zero = Finite False 0"
definition f_one :: float64 where "f_one = Finite False 1"
definition f_ten :: float64 where "f_ten = Finite False 10"
definition f_tenth :: float64 where "f_tenth = round64 False (1 / 10)"
definition f_minus_one :: float64 where "f_minus_one = Finite True 1"

text \<open>The real number a finite value stands for.\<close>

fun valof :: "float64 \<Rightarrow> real" where
  "valof (Finite s m) = sval s m"
| "valof (Infinity s) = 0"
| "valof NaN = 0"

fun is_finite :: "float64 \<Rightarrow> bool" where
  "is_finite (Finite s m) = True"
| "is_finite (Infinity s) = False"
| "is_finite NaN = False"

section \<open>Tokens on the heap\<close>

datatype tokenKind = Number | Plus | Minus | Multiple | Divide | Start | End

text \<open>
  A token is a heap cell; \<open>prev\<close> and \<open>next\<close> are pointers, \<open>None\<close> is \<^verbatim>\<open>nil\<close>.
  The heap is the list of all cells allocated so far, and the address of a cell is its
  index. \<^verbatim>\<open>&token{...}\<close> allocates at the end.
\<close>

record token =
  kind :: tokenKind
  number :: float64
  prev :: "nat option"
  "next" :: "nat option"

type_synonym heap = "token list"

type_synonym ptr = "nat option"

text \<open>
  \<open>InvalidCharacter\<close> and \<open>InvalidSyntax\<close> are the two \<^verbatim>\<open>log.Panicf\<close> calls of the
  source; \<open>NilDereference\<close> is the run-time panic of Go on a field access through \<^verbatim>\<open>nil\<close>.
\<close>

datatype error = InvalidCharacter char nat | InvalidSyntax | NilDereference

definition bindE :: "error + 'a \<Rightarrow> ('a \<Rightarrow> error + 'b) \<Rightarrow> error + 'b" where
  "bindE m f = (case m of Inl e \<Rightarrow> Inl e | Inr v \<Rightarrow> f v)"

text \<open>A loop that may not end returns \<open>None\<close>.\<close>

definition bindP :: "(error + 'a) option \<Rightarrow> ('a \<Rightarrow> (error + 'b) option) \<Rightarrow> (error + 'b) option" where
  "bindP m f = (case m of None \<Rightarrow> None | Some (Inl e) \<Rightarrow> Some (Inl e) | Some (Inr v) \<Rightarrow> f v)"

definition new_token :: "heap \<Rightarrow> token \<Rightarrow> ptr \<times> heap" where
  "new_token h t = (Some (length h), h @ [t])"

definition load :: "heap \<Rightarrow> ptr \<Rightarrow> error + token" where
  "load h p = (case p of None \<Rightarrow> Inl NilDereference | Some a \<Rightarrow> Inr (h ! a))"

definition store :: "heap \<Rightarrow> ptr \<Rightarrow> (token \<Rightarrow> token) \<Rightarrow> error + heap" where
  "store h p f = (case p of None \<Rightarrow> Inl NilDereference | Some a \<Rightarrow> Inr (h[a := f (h ! a)]))"

definition get_kind :: "heap \<Rightarrow> ptr \<Rightarrow> error + tokenKind" where
  "get_kind h p = bindE (load h p) (\<lambda>t. Inr (kind t))"

definition get_number :: "heap \<Rightarrow> ptr \<Rightarrow> error + float64" where
  "get_number h p = bindE (load h p) (\<lambda>t. Inr (number t))"

definition get_prev :: "heap \<Rightarrow> ptr \<Rightarrow> error + ptr" where
  "get_prev h p = bindE (load h p) (\<lambda>t. Inr (prev t))"

definition get_next :: "heap \<Rightarrow> ptr \<Rightarrow> error + ptr" where
  "get_next h p = bindE (load h p) (\<lambda>t. Inr (next t))"

definition set_number :: "heap \<Rightarrow> ptr \<Rightarrow> float64 \<Rightarrow> error + heap" where
  "set_number h p v = store h p (\<lambda>t. t\<lparr>number := v\<rparr>)"

definition set_prev :: "heap \<Rightarrow> ptr \<Rightarrow> ptr \<Rightarrow> error + heap" where
  "set_prev h p q = store h p (\<lambda>t. t\<lparr>prev := q\<rparr>)"

definition set_next :: "heap \<Rightarrow> ptr \<Rightarrow> ptr \<Rightarrow> error + heap" where
  "set_next h p q = store h p (\<lambda>t. t\<lparr>next := q\<rparr>)"

section \<open>The tokenizer\<close>

text \<open>
  \<^verbatim>\<open>unicode.IsDigit(rune(line[index]))\<close> is applied to one byte, and on Latin-1 it is the
  test \<^verbatim>\<open>'0' <= r && r <= '9'\<close>.
\<close>

definition isDigit :: "char \<Rightarrow> bool" where
  "isDigit c = (48 \<le> (of_char c :: nat) \<and> (of_char c :: nat) \<le> 57)"

text \<open>\<^verbatim>\<open>float64(line[index]-'0')\<close>: the subtraction is on bytes.\<close>

definition digitValue :: "char \<Rightarrow> float64" where
  "digitValue c = Finite False (of_nat (((of_char c :: nat) + 256 - 48) mod 256))"

function readNumber_loop :: "string \<Rightarrow> nat \<Rightarrow> float64 \<Rightarrow> bool \<Rightarrow> float64 \<Rightarrow> float64 \<times> float64 \<times> nat" where
  "readNumber_loop line index num flag keta =
     (if index < length line then
        (if line ! index = CHR ''.'' then readNumber_loop line (index + 1) num True keta
         else if isDigit (line ! index) then
           readNumber_loop line (index + 1) (fadd (fmul num f_ten) (digitValue (line ! index))) flag
             (if flag then fmul keta f_tenth else keta)
         else (num, keta, index))
      else (num, keta, index))"
  by pat_completeness auto
termination
  by (relation "measure (\<lambda>(line, index, num, flag, keta). length line - index)") auto

declare readNumber_loop.simps [simp del]

definition readNumber :: "heap \<Rightarrow> string \<Rightarrow> nat \<Rightarrow> ptr \<times> nat \<times> heap" where
  "readNumber h line index =
     (case readNumber_loop line index f_zero False f_one of (num, keta, index') \<Rightarrow>
        (case new_token h \<lparr>kind = Number, number = fmul num keta, prev = None, next = None\<rparr> of
           (tok, h') \<Rightarrow> (tok, index', h')))"

definition readPlus :: "heap \<Rightarrow> string \<Rightarrow> nat \<Rightarrow> ptr \<times> nat \<times> heap" where
  "readPlus h line index =
     (case new_token h \<lparr>kind = Plus, number = f_zero, prev = None, next = None\<rparr> of
        (tok, h') \<Rightarrow> (tok, index + 1, h'))"

definition readMinus :: "heap \<Rightarrow> string \<Rightarrow> nat \<Rightarrow> ptr \<times> nat \<times> heap" where
  "readMinus h line index =
     (case new_token h \<lparr>kind = Minus, number = f_zero, prev = None, next = None\<rparr> of
        (tok, h') \<Rightarrow> (tok, index + 1, h'))"

definition readMultiple :: "heap \<Rightarrow> string \<Rightarrow> nat \<Rightarrow> ptr \<times> nat \<times> heap" where
  "readMultiple h line index =
     (case new_token h \<lparr>kind = Multiple, number = f_zero, prev = None, next = None\<rparr> of
        (tok, h') \<Rightarrow> (tok, index + 1, h'))"

definition readDivide :: "heap \<Rightarrow> string \<Rightarrow> nat \<Rightarrow> ptr \<times> nat \<times> heap" where
  "readDivide h line index =
     (case new_token h \<lparr>kind = Divide, number = f_zero, prev = None, next = None\<rparr> of
        (tok, h') \<Rightarrow> (tok, index + 1, h'))"

definition readStart :: "heap \<Rightarrow> string \<Rightarrow> nat \<Rightarrow> ptr \<times> nat \<times> heap" where
  "readStart h line index =
     (case new_token h \<lparr>kind = Start, number = f_zero, prev = None, next = None\<rparr> of
        (tok, h') \<Rightarrow> (tok, index + 1, h'))"

definition readEnd :: "heap \<Rightarrow> string \<Rightarrow> nat \<Rightarrow> ptr \<times> nat \<times> heap" where
  "readEnd h line index =
     (case new_token h \<lparr>kind = End, number = f_zero, prev = None, next = None\<rparr> of
        (tok, h') \<Rightarrow> (tok, index + 1, h'))"

text \<open>\<^verbatim>\<open>prev.next = tok; tok.prev = prev; return tok\<close>\<close>

definition connectToken :: "heap \<Rightarrow> ptr \<Rightarrow> ptr \<Rightarrow> error + ptr \<times> heap" where
  "connectToken h p tok =
     bindE (set_next h p tok) (\<lambda>h1.
     bindE (set_prev h1 tok p) (\<lambda>h2. Inr (tok, h2)))"

text \<open>
  One turn of the loop of \<^verbatim>\<open>tokenize\<close>: the switch, then \<^verbatim>\<open>connectToken\<close>. The result
  is the new \<^verbatim>\<open>prev\<close>, the heap, the new \<^verbatim>\<open>index\<close> and the new \<^verbatim>\<open>flag\<close>. A \<^verbatim>\<open>-\<close> that
  does not follow a number only sets the flag (\<^verbatim>\<open>continue\<close>).
\<close>

definition tokenize_step :: "string \<Rightarrow> heap \<Rightarrow> ptr \<Rightarrow> nat \<Rightarrow> bool \<Rightarrow> error + ptr \<times> heap \<times> nat \<times> bool" where
  "tokenize_step line h p index flag =
     (if isDigit (line ! index) then
        (case readNumber h line index of (tok, index', h1) \<Rightarrow>
           bindE (if flag
                  then bindE (get_number h1 tok) (\<lambda>v. set_number h1 tok (fmul v f_minus_one))
                  else Inr h1) (\<lambda>h2.
           bindE (connectToken h2 p tok) (\<lambda>(p', h3). Inr (p', h3, index', False))))
      else if line ! index = CHR ''+'' then
        (case readPlus h line index of (tok, index', h1) \<Rightarrow>
           bindE (connectToken h1 p tok) (\<lambda>(p', h2). Inr (p', h2, index', flag)))
      else if line ! index = CHR ''-'' then
        bindE (get_kind h p) (\<lambda>k.
          if k \<noteq> Number then Inr (p, h, index + 1, True)
          else (case readMinus h line index of (tok, index', h1) \<Rightarrow>
                  bindE (connectToken h1 p tok) (\<lambda>(p', h2). Inr (p', h2, index', flag))))
      else if line ! index = CHR ''*'' then
        (case readMultiple h line index of (tok, index', h1) \<Rightarrow>
           bindE (connectToken h1 p tok) (\<lambda>(p', h2). Inr (p', h2, index', flag)))
      else if line ! index = CHR ''/'' then
        (case readDivide h line index of (tok, index', h1) \<Rightarrow>
           bindE (connectToken h1 p tok) (\<lambda>(p', h2). Inr (p', h2, index', flag)))
      else if line ! index = CHR ''('' then
        (case readStart h line index of (tok, index', h1) \<Rightarrow>
           bindE (connectToken h1 p tok) (\<lambda>(p', h2). Inr (p', h2, index', flag)))
      else if line ! index = CHR '')'' then
        (case readEnd h line index of (tok, index', h1) \<Rightarrow>
           bindE (connectToken h1 p tok) (\<lambda>(p', h2). Inr (p', h2, index', flag)))
      else Inl (InvalidCharacter (line ! index) index))"

lemma readNumber_loop_index: "index \<le> snd (snd (readNumber_loop line index num flag keta))"
  by (induction line index num flag keta rule: readNumber_loop.induct)
     (subst readNumber_loop.simps, auto simp: Let_def)

lemma readNumber_loop_advances:
  "index < length line \<Longrightarrow> isDigit (line ! index)
   \<Longrightarrow> index < snd (snd (readNumber_loop line index num flag keta))"
proof -
  assume a: "index < length line" "isDigit (line ! index)"
  have "line ! index \<noteq> CHR ''.''"
    using a(2) by (auto simp: isDigit_def)
  then have "readNumber_loop line index num flag keta =
      readNumber_loop line (index + 1) (fadd (fmul num f_ten) (digitValue (line ! index))) flag
        (if flag then fmul keta f_tenth else keta)"
    using a by (subst readNumber_loop.simps) simp
  moreover have "index + 1 \<le> snd (snd (readNumber_loop line (index + 1)
      (fadd (fmul num f_ten) (digitValue (line ! index))) flag
      (if flag then fmul keta f_tenth else keta)))"
    using readNumber_loop_index [of "index + 1"] by (simp add: snd_def split: prod.splits)
  ultimately show ?thesis by simp
qed

lemma tokenize_step_advances:
  "index < length line \<Longrightarrow> tokenize_step line h p index flag = Inr (p', h', index', flag')
   \<Longrightarrow> index < index'"
  using readNumber_loop_advances [of index line f_zero False f_one]
  by (auto simp: tokenize_step_def bindE_def connectToken_def readNumber_def readPlus_def
        readMinus_def readMultiple_def readDivide_def readStart_def readEnd_def new_token_def
        split: if_splits sum.splits prod.splits)

function tokenize_loop :: "string \<Rightarrow> heap \<Rightarrow> ptr \<Rightarrow> nat \<Rightarrow> bool \<Rightarrow> error + ptr \<times> heap" where
  "tokenize_loop line h p index flag =
     (if index < length line then
        (case tokenize_step line h p index flag of
           Inl e \<Rightarrow> Inl e
         | Inr (p', h', index', flag') \<Rightarrow> tokenize_loop line h' p' index' flag')
      else Inr (p, h))"
  by pat_completeness auto
termination
proof (relation "measure (\<lambda>(line, h, p, index, flag). length line - index)")
  show "wf (measure (\<lambda>(line, h, p, index, flag). length line - index))"
    by simp
next
  fix line :: string and h h' :: heap and p p' :: ptr and index index' :: nat and flag flag' :: bool
    and x y z
  assume "index < length line" and "tokenize_step line h p index flag = Inr x"
    and "(p', y) = x" and "(h', z) = y" and "(index', flag') = z"
  then have "index < index'"
    using tokenize_step_advances [of index line h p flag p' h' index' flag'] by simp
  with \<open>index < length line\<close>
  show "((line, h', p', index', flag'), (line, h, p, index, flag))
      \<in> measure (\<lambda>(line, h, p, index, flag). length line - index)"
    by simp
qed

declare tokenize_loop.simps [simp del]

text \<open>
  \<^verbatim>\<open>tokenize\<close> starts from the dummy \<^verbatim>\<open>+\<close> token \<^verbatim>\<open>HEAD\<close> and returns \<^verbatim>\<open>HEAD\<close>, \<^verbatim>\<open>TAIL\<close>
  and the heap.
\<close>

definition tokenize :: "string \<Rightarrow> error + ptr \<times> ptr \<times> heap" where
  "tokenize line =
     (case new_token [] \<lparr>kind = Plus, number = f_zero, prev = None, next = None\<rparr> of
        (HEAD, h) \<Rightarrow>
          bindE (tokenize_loop line h HEAD 0 False) (\<lambda>(TAIL, h'). Inr (HEAD, TAIL, h')))"

section \<open>The additive evaluator\<close>

definition evaluatePlusMinus_step :: "heap \<Rightarrow> ptr \<Rightarrow> float64 \<Rightarrow> error + float64 \<times> ptr" where
  "evaluatePlusMinus_step h p answer =
     bindE (load h p) (\<lambda>t.
     bindE (if kind t = Number
            then bindE (get_kind h (prev t)) (\<lambda>k.
                   case k of Plus \<Rightarrow> Inr (fadd answer (number t))
                           | Minus \<Rightarrow> Inr (fsub answer (number t))
                           | _ \<Rightarrow> Inl InvalidSyntax)
            else Inr answer) (\<lambda>answer'.
     Inr (answer', next t)))"

partial_function (option) evaluatePlusMinus_loop :: "heap \<Rightarrow> ptr \<Rightarrow> float64 \<Rightarrow> (error + float64) option" where
  "evaluatePlusMinus_loop h p answer =
     (case evaluatePlusMinus_step h p answer of
        Inl e \<Rightarrow> Some (Inl e)
      | Inr (answer', p') \<Rightarrow>
          if p' = None then Some (Inr answer') else evaluatePlusMinus_loop h p' answer')"

declare evaluatePlusMinus_loop.simps [code]

definition evaluatePlusMinus :: "heap \<Rightarrow> ptr \<Rightarrow> (error + float64) option" where
  "evaluatePlusMinus h p = evaluatePlusMinus_loop h p f_zero"

section \<open>The multiplicative reducer\<close>

definition calcMultiple :: "heap \<Rightarrow> ptr \<Rightarrow> error + ptr \<times> heap" where
  "calcMultiple h p =
     bindE (get_prev h p) (\<lambda>a. bindE (get_number h a) (\<lambda>x.
     bindE (get_next h p) (\<lambda>b. bindE (get_number h b) (\<lambda>y.
     Inr (new_token h \<lparr>kind = Number, number = fmul x y, prev = None, next = None\<rparr>)))))"

definition calcDivide :: "heap \<Rightarrow> ptr \<Rightarrow> error + ptr \<times> heap" where
  "calcDivide h p =
     bindE (get_prev h p) (\<lambda>a. bindE (get_number h a) (\<lambda>x.
     bindE (get_next h p) (\<lambda>b. bindE (get_number h b) (\<lambda>y.
     Inr (new_token h \<lparr>kind = Number, number = fdiv x y, prev = None, next = None\<rparr>)))))"

text \<open>
  \<^verbatim>\<open>replaceMulDiv\<close>, statement by statement; each pointer path is read again from the
  current heap.
\<close>

definition replaceMulDiv :: "heap \<Rightarrow> ptr \<Rightarrow> ptr \<Rightarrow> error + ptr \<times> heap" where
  "replaceMulDiv h p new =
     bindE (bindE (get_prev h p) (get_prev h)) (\<lambda>pp.
     bindE (if pp \<noteq> None
            then bindE (set_next h pp new) (\<lambda>h1.
                 bindE (bindE (get_prev h1 p) (get_prev h1)) (\<lambda>pp1. set_prev h1 new pp1))
            else Inr h) (\<lambda>h2.
     bindE (bindE (get_next h2 p) (get_next h2)) (\<lambda>nn.
     bindE (if nn \<noteq> None
            then bindE (set_prev h2 nn new) (\<lambda>h3.
                 bindE (bindE (get_next h3 p) (get_next h3)) (\<lambda>nn1. set_next h3 new nn1))
            else Inr h2) (\<lambda>h4.
     bindE (get_next h4 new) (\<lambda>r. Inr (r, h4))))))"

definition evaluateMulDiv_step :: "heap \<Rightarrow> ptr \<Rightarrow> error + ptr \<times> heap" where
  "evaluateMulDiv_step h p =
     bindE (get_kind h p) (\<lambda>k.
       case k of
         Multiple \<Rightarrow> bindE (calcMultiple h p) (\<lambda>(new, h1). replaceMulDiv h1 p new)
       | Divide \<Rightarrow> bindE (calcDivide h p) (\<lambda>(new, h1). replaceMulDiv h1 p new)
       | _ \<Rightarrow> bindE (get_next h p) (\<lambda>n. Inr (n, h)))"

partial_function (option) evaluateMulDiv_loop :: "heap \<Rightarrow> ptr \<Rightarrow> (error + heap) option" where
  "evaluateMulDiv_loop h p =
     (case evaluateMulDiv_step h p of
        Inl e \<Rightarrow> Some (Inl e)
      | Inr (p', h') \<Rightarrow> if p' = None then Some (Inr h') else evaluateMulDiv_loop h' p')"

declare evaluateMulDiv_loop.simps [code]

definition evaluateMulDiv :: "heap \<Rightarrow> ptr \<Rightarrow> (error + heap) option" where
  "evaluateMulDiv h HEAD = evaluateMulDiv_loop h HEAD"

section \<open>The parenthesis reducer\<close>

definition replaceStartEnd :: "heap \<Rightarrow> ptr \<Rightarrow> ptr \<Rightarrow> ptr \<Rightarrow> error + heap" where
  "replaceStartEnd h tmpHead new tmpEnd =
     bindE (bindE (get_prev h tmpHead) (get_prev h)) (\<lambda>pp.
     bindE (set_next h pp new) (\<lambda>h1.
     bindE (bindE (get_prev h1 tmpHead) (get_prev h1)) (\<lambda>pp1.
     bindE (set_prev h1 new pp1) (\<lambda>h2.
     bindE (bindE (get_next h2 tmpEnd) (get_next h2)) (\<lambda>nn.
     if nn \<noteq> None
     then bindE (set_prev h2 nn new) (\<lambda>h3.
          bindE (bindE (get_next h3 tmpEnd) (get_next h3)) (\<lambda>nn1. set_next h3 new nn1))
     else Inr h2)))))"

definition calcStartEnd :: "heap \<Rightarrow> ptr \<Rightarrow> ptr \<Rightarrow> (error + ptr \<times> heap) option" where
  "calcStartEnd h tmpHead tmpEnd =
     (case new_token h \<lparr>kind = Number, number = f_zero, prev = None, next = None\<rparr> of
        (new, h1) \<Rightarrow>
     bindP (Some (replaceStartEnd h1 tmpHead new tmpEnd)) (\<lambda>h2.
     (case new_token h2 \<lparr>kind = Plus, number = f_zero, prev = None, next = tmpHead\<rparr> of
        (dummy, h3) \<Rightarrow>
     bindP (Some (set_prev h3 tmpHead dummy)) (\<lambda>h4.
     bindP (Some (set_next h4 tmpEnd None)) (\<lambda>h5.
     bindP (evaluateMulDiv h5 dummy) (\<lambda>h6.
     bindP (evaluatePlusMinus h6 dummy) (\<lambda>v.
     bindP (Some (set_number h6 new v)) (\<lambda>h7.
     bindP (Some (get_prev h7 new)) (\<lambda>r. Some (Inr (r, h7)))))))))))"

text \<open>\<^verbatim>\<open>for p.next.kind != End { p = p.next }\<close>; the result is the last \<^verbatim>\<open>p\<close>.\<close>

partial_function (option) findEnd :: "heap \<Rightarrow> ptr \<Rightarrow> (error + ptr) option" where
  "findEnd h p =
     (case bindE (get_next h p) (get_kind h) of
        Inl e \<Rightarrow> Some (Inl e)
      | Inr k \<Rightarrow>
          if k \<noteq> End
          then (case get_next h p of Inl e \<Rightarrow> Some (Inl e) | Inr n \<Rightarrow> findEnd h n)
          else Some (Inr p))"

declare findEnd.simps [code]

definition evaluateStartEnd_step :: "heap \<Rightarrow> ptr \<Rightarrow> (error + ptr \<times> heap) option" where
  "evaluateStartEnd_step h p =
     bindP (Some (get_kind h p)) (\<lambda>k.
       case k of
         Start \<Rightarrow>
           bindP (Some (get_next h p)) (\<lambda>tmpHead.
           bindP (findEnd h p) (\<lambda>tmpEnd. calcStartEnd h tmpHead tmpEnd))
       | _ \<Rightarrow> bindP (Some (get_prev h p)) (\<lambda>q. Some (Inr (q, h))))"

partial_function (option) evaluateStartEnd_loop :: "heap \<Rightarrow> ptr \<Rightarrow> (error + heap) option" where
  "evaluateStartEnd_loop h p =
     (case evaluateStartEnd_step h p of
        None \<Rightarrow> None
      | Some (Inl e) \<Rightarrow> Some (Inl e)
      | Some (Inr (p', h')) \<Rightarrow> if p' = None then Some (Inr h') else evaluateStartEnd_loop h' p')"

declare evaluateStartEnd_loop.simps [code]

definition evaluateStartEnd :: "heap \<Rightarrow> ptr \<Rightarrow> (error + heap) option" where
  "evaluateStartEnd h TAIL = evaluateStartEnd_loop h TAIL"

section \<open>The entry point\<close>

definition Calculate :: "string \<Rightarrow> (error + float64) option" where
  "Calculate line =
     bindP (Some (tokenize line)) (\<lambda>(HEAD, TAIL, h).
     bindP (evaluateStartEnd h TAIL) (\<lambda>h1.
     bindP (evaluateMulDiv h1 HEAD) (\<lambda>h2.
     evaluatePlusMinus h2 HEAD)))"

section \<open>Number literals\<close>

definition isLiteralChar :: "char \<Rightarrow> bool" where
  "isLiteralChar c = (isDigit c \<or> c = CHR ''.'')"

primrec literalNumber :: "string \<Rightarrow> float64 \<Rightarrow> float64" where
  "literalNumber [] num = num"
| "literalNumber (c # cs) num =
     literalNumber cs (if c = CHR ''.'' then num else fadd (fmul num f_ten) (digitValue c))"

primrec literalKeta :: "string \<Rightarrow> bool \<Rightarrow> float64 \<Rightarrow> float64" where
  "literalKeta [] flag keta = keta"
| "literalKeta (c # cs) flag keta =
     (if c = CHR ''.'' then literalKeta cs True keta
      else literalKeta cs flag (if flag then fmul keta f_tenth else keta))"

fun spec_literal_end :: "string \<Rightarrow> nat \<Rightarrow> bool \<Rightarrow> nat" where
  "spec_literal_end [] index seen = index"
| "spec_literal_end (c # cs) index seen =
     (if isDigit c then spec_literal_end cs (index + 1) seen
      else if c = CHR ''.'' \<and> \<not> seen then spec_literal_end cs (index + 1) True
      else index)"

lemma isDigit_not_dot: "isDigit c \<Longrightarrow> c \<noteq> CHR ''.''"
  by (auto simp: isDigit_def)

lemma readNumber_loop_segment:
  "readNumber_loop line index num flag keta =
     (let seg = takeWhile isLiteralChar (drop index line)
      in (literalNumber seg num, literalKeta seg flag keta, index + length seg))"
proof (induction line index num flag keta rule: readNumber_loop.induct)
  case (1 line index num flag keta)
  show ?case
  proof (cases "index < length line")
    case False
    then show ?thesis
      by (subst readNumber_loop.simps) simp
  next
    case True
    then have d: "drop index line = line ! index # drop (index + 1) line"
      by (simp add: Cons_nth_drop_Suc)
    show ?thesis
    proof (cases "line ! index = CHR ''.''")
      case dot: True
      then have "isLiteralChar (line ! index)"
        by (simp add: isLiteralChar_def)
      then show ?thesis
        using True dot 1(1) by (subst readNumber_loop.simps) (simp add: d Let_def)
    next
      case nodot: False
      show ?thesis
      proof (cases "isDigit (line ! index)")
        case True
        then have "isLiteralChar (line ! index)"
          by (simp add: isLiteralChar_def)
        then show ?thesis
          using True \<open>index < length line\<close> nodot 1(2)
          by (subst readNumber_loop.simps) (simp add: d Let_def)
      next
        case False
        then have "\<not> isLiteralChar (line ! index)"
          using nodot by (simp add: isLiteralChar_def)
        then show ?thesis
          using False \<open>index < length line\<close> nodot
          by (subst readNumber_loop.simps) (simp add: d Let_def)
      qed
    qed
  qed
qed

lemma readNumber_segment:
  "readNumber h line index =
     (let seg = takeWhile isLiteralChar (drop index line)
      in (Some (length h), index + length seg,
          h @ [\<lparr>kind = Number,
                 number = fmul (literalNumber seg f_zero) (literalKeta seg False f_one),
                 prev = None, next = None\<rparr>]))"
  by (simp add: readNumber_def readNumber_loop_segment new_token_def Let_def)

section \<open>Claims\<close>

text \<open>
  C9, as the specification states it: a number literal is made of contiguous digits and at
  most one decimal point, and ends at the first character that is neither a digit nor that
  single decimal point. \<open>spec_literal_end\<close> is the end of the literal in these words. The
  source reads on over every further decimal point: on \<^verbatim>\<open>1.2.3\<close> it stops at index 5,
  the specification at index 3.
\<close>

theorem C9_second_point_counterexample:
  "fst (snd (readNumber [] ''1.2.3'' 0)) = 5 \<and> spec_literal_end ''1.2.3'' 0 False = 3"
  by (simp add: readNumber_segment isLiteralChar_def isDigit_def Let_def)

text \<open>
  C9, amended: \<open>readNumber\<close> consumes the longest run of digits and decimal points that
  starts at \<open>index\<close> (any number of decimal points), so the literal ends at the first
  character that is neither a digit nor a decimal point. The digits are accumulated by
  \<open>number * 10 + digit\<close> from 0 (\<open>literalNumber\<close>; a decimal point leaves the number as it
  is), the multiplier starts at 1 and is multiplied by 0.1 for every digit after the first
  decimal point (\<open>literalKeta\<close>), and the token holds their product.
\<close>

theorem C9_readNumber_consumes_digits_and_points:
  "readNumber h line index =
     (let seg = takeWhile isLiteralChar (drop index line)
      in (Some (length h), index + length seg,
          h @ [\<lparr>kind = Number,
                 number = fmul (literalNumber seg f_zero) (literalKeta seg False f_one),
                 prev = None, next = None\<rparr>]))"
  by (rule readNumber_segment)


end
